theory Spec2Isabelle
  imports Complex_Main
begin

section \<open>Checklist CORUFA: limit evaluator, fee classifier and section rules\<close>

text \<open>
  The program is a JavaScript form (\<^verbatim>\<open>app_checklist_corufa_plenario_react.jsx\<close>). Its
  decision logic is a handful of pure functions over two records, the reference limits
  and the dossier (\<^verbatim>\<open>expediente\<close>). This theory translates those functions and the
  handlers of the JSON export, the JSON import and the bulk load from CSV.

  Conventions of the translation:
  \<^item> a JavaScript number is a \<open>jsnum\<close>: \<open>NaN\<close>, the two infinities, or a finite value.
    Finite values are exact rationals; the rounding of IEEE binary64 (and with it
    overflow to \<open>Infinity\<close> and underflow to zero) is not modelled, and \<open>-0\<close> is \<open>0\<close>;
  \<^item> a string is the list of the bytes of its UTF-8 text, so the source's literals
    outside ASCII are written as their bytes;
  \<^item> a field value is a primitive \<open>jsval\<close>; an object read by property name is a map
    from names to values, a name without entry reading as \<open>Undefined\<close>. Properties
    inherited from \<^verbatim>\<open>Object.prototype\<close> are not modelled: no name the program reads
    is one of them.
\<close>

subsection \<open>Numbers and primitive values\<close>

datatype jsnum = NaN | Fin rat | PosInf | NegInf

datatype jsval = Undefined | Null | Bool bool | Num jsnum | Str string

text \<open>The global \<^verbatim>\<open>isFinite\<close> on a number.\<close>

fun isFinite :: "jsnum \<Rightarrow> bool" where
  "isFinite (Fin x) = True"
| "isFinite NaN = False"
| "isFinite PosInf = False"
| "isFinite NegInf = False"

text \<open>The comparison \<^verbatim>\<open>a < b\<close> of two numbers; it is false as soon as one is \<open>NaN\<close>.\<close>

fun num_lt :: "jsnum \<Rightarrow> jsnum \<Rightarrow> bool" where
  "num_lt NaN b = False"
| "num_lt a NaN = False"
| "num_lt (Fin x) (Fin y) = (x < y)"
| "num_lt (Fin x) PosInf = True"
| "num_lt (Fin x) NegInf = False"
| "num_lt PosInf b = False"
| "num_lt NegInf NegInf = False"
| "num_lt NegInf b = True"

text \<open>\<^verbatim>\<open>a >= b\<close>: \<open>a\<close> equals \<open>b\<close> or \<open>b < a\<close>, and false as soon as one is \<open>NaN\<close>.\<close>

fun num_ge :: "jsnum \<Rightarrow> jsnum \<Rightarrow> bool" where
  "num_ge NaN b = False"
| "num_ge a NaN = False"
| "num_ge a b = (a = b \<or> num_lt b a)"

fun num_neg :: "jsnum \<Rightarrow> jsnum" where
  "num_neg NaN = NaN"
| "num_neg (Fin x) = Fin (- x)"
| "num_neg PosInf = NegInf"
| "num_neg NegInf = PosInf"

subsection \<open>White space and \<^verbatim>\<open>String.prototype.trim\<close>\<close>

text \<open>
  The white space and line terminators of ECMAScript, each as its UTF-8 bytes:
  TAB, LF, VT, FF, CR, SP, U+00A0, U+1680, U+2000 to U+200A, U+2028, U+2029, U+202F,
  U+205F, U+3000 and U+FEFF.
\<close>

definition ws_tokens :: "string list" where
  "ws_tokens =
    [[CHR 0x09], [CHR 0x0A], [CHR 0x0B], [CHR 0x0C], [CHR 0x0D], [CHR 0x20],
     [CHR 0xC2, CHR 0xA0], [CHR 0xE1, CHR 0x9A, CHR 0x80],
     [CHR 0xE2, CHR 0x80, CHR 0x80], [CHR 0xE2, CHR 0x80, CHR 0x81],
     [CHR 0xE2, CHR 0x80, CHR 0x82], [CHR 0xE2, CHR 0x80, CHR 0x83],
     [CHR 0xE2, CHR 0x80, CHR 0x84], [CHR 0xE2, CHR 0x80, CHR 0x85],
     [CHR 0xE2, CHR 0x80, CHR 0x86], [CHR 0xE2, CHR 0x80, CHR 0x87],
     [CHR 0xE2, CHR 0x80, CHR 0x88], [CHR 0xE2, CHR 0x80, CHR 0x89],
     [CHR 0xE2, CHR 0x80, CHR 0x8A], [CHR 0xE2, CHR 0x80, CHR 0xA8],
     [CHR 0xE2, CHR 0x80, CHR 0xA9], [CHR 0xE2, CHR 0x80, CHR 0xAF],
     [CHR 0xE2, CHR 0x81, CHR 0x9F], [CHR 0xE3, CHR 0x80, CHR 0x80],
     [CHR 0xEF, CHR 0xBB, CHR 0xBF]]"

text \<open>
  \<open>strip toks s\<close> removes from the front of \<open>s\<close> every leading occurrence of one of
  the byte sequences \<open>toks\<close>.
\<close>

function strip :: "string list \<Rightarrow> string \<Rightarrow> string" where
  "strip toks s =
     (case List.find (\<lambda>t. t \<noteq> [] \<and> take (length t) s = t) toks of
        None \<Rightarrow> s
      | Some t \<Rightarrow> strip toks (drop (length t) s))"
  by pat_completeness auto
termination
proof (relation "measure (\<lambda>(toks, s). length s)")
  show "wf (measure (\<lambda>(toks, s). length s))" by simp
next
  fix toks :: "string list" and s t :: string
  assume "List.find (\<lambda>t. t \<noteq> [] \<and> take (length t) s = t) toks = Some t"
  then have t: "t \<noteq> []" "take (length t) s = t"
    by (auto simp: find_Some_iff)
  then have "s \<noteq> []" by auto
  with t show "((toks, drop (length t) s), (toks, s)) \<in> measure (\<lambda>(toks, s). length s)"
    by simp
qed

declare strip.simps [simp del]

text \<open>\<^verbatim>\<open>s.trim()\<close>: white space is removed at the front, then at the end.\<close>

definition trim :: "string \<Rightarrow> string" where
  "trim s = rev (strip (map rev ws_tokens) (rev (strip ws_tokens s)))"

text \<open>
  \<^verbatim>\<open>s.toLowerCase()\<close> on ASCII letters; bytes outside ASCII are kept. The only
  character outside ASCII that JavaScript lowercases to an ASCII letter alone is
  U+212A, to \<^verbatim>\<open>k\<close>, a letter that no key of the bulk load contains: whether a header
  is one of those keys is the same here and there.
\<close>

definition lower_char :: "char \<Rightarrow> char" where
  "lower_char c =
     (if 65 \<le> (of_char c :: int) \<and> (of_char c :: int) \<le> 90
      then char_of ((of_char c :: int) + 32) else c)"

definition toLowerCase :: "string \<Rightarrow> string" where
  "toLowerCase s = map lower_char s"

subsection \<open>\<^verbatim>\<open>Number(x)\<close>\<close>

definition is_digit :: "char \<Rightarrow> bool" where
  "is_digit c \<longleftrightarrow> 48 \<le> (of_char c :: int) \<and> (of_char c :: int) \<le> 57"

text \<open>The value of a hexadecimal digit, \<open>None\<close> for any other character.\<close>

definition hex_val :: "char \<Rightarrow> int option" where
  "hex_val c =
     (let n = (of_char c :: int) in
      if 48 \<le> n \<and> n \<le> 57 then Some (n - 48)
      else if 97 \<le> n \<and> n \<le> 102 then Some (n - 87)
      else if 65 \<le> n \<and> n \<le> 70 then Some (n - 55)
      else None)"

text \<open>\<open>radix_val b ds\<close>: the digits \<open>ds\<close> read in base \<open>b\<close>, \<open>None\<close> unless every
  character is a digit of that base and there is at least one.\<close>

definition radix_val :: "int \<Rightarrow> string \<Rightarrow> int option" where
  "radix_val b ds =
     (if ds \<noteq> [] \<and> list_all (\<lambda>c. case hex_val c of None \<Rightarrow> False | Some d \<Rightarrow> d < b) ds
      then Some (foldl (\<lambda>a c. b * a + (case hex_val c of None \<Rightarrow> 0 | Some d \<Rightarrow> d)) 0 ds)
      else None)"

text \<open>\<open>NonDecimalIntegerLiteral\<close>: \<^verbatim>\<open>0x\<close>, \<^verbatim>\<open>0o\<close> or \<^verbatim>\<open>0b\<close> (either case) and digits.\<close>

definition NonDecimalIntegerLiteral :: "string \<Rightarrow> int option" where
  "NonDecimalIntegerLiteral s =
     (case s of
        c0 # c1 # ds \<Rightarrow>
          if c0 \<noteq> CHR ''0'' then None
          else if c1 = CHR ''x'' \<or> c1 = CHR ''X'' then radix_val 16 ds
          else if c1 = CHR ''o'' \<or> c1 = CHR ''O'' then radix_val 8 ds
          else if c1 = CHR ''b'' \<or> c1 = CHR ''B'' then radix_val 2 ds
          else None
      | _ \<Rightarrow> None)"

text \<open>\<open>ExponentPart\<close> of what follows the mantissa: nothing (exponent 0), or \<^verbatim>\<open>e\<close>/\<^verbatim>\<open>E\<close>,
  an optional sign and at least one digit, up to the end of the string.\<close>

definition ExponentPart :: "string \<Rightarrow> int option" where
  "ExponentPart s =
     (case s of
        [] \<Rightarrow> Some 0
      | c # t \<Rightarrow>
          if c = CHR ''e'' \<or> c = CHR ''E'' then
            (let neg = (t \<noteq> [] \<and> hd t = CHR ''-'');
                 ds = (if t \<noteq> [] \<and> (hd t = CHR ''-'' \<or> hd t = CHR ''+'') then tl t else t)
             in case radix_val 10 ds of
                  None \<Rightarrow> None
                | Some e \<Rightarrow> Some (if neg then - e else e))
          else None)"

definition pow10 :: "int \<Rightarrow> rat" where
  "pow10 e = (if 0 \<le> e then 10 ^ nat e else 1 / 10 ^ nat (- e))"

text \<open>\<open>StrUnsignedDecimalLiteral\<close>: \<^verbatim>\<open>Infinity\<close>, or digits with an optional fraction
  (one of the two digit runs may be empty, not both) and an optional exponent.\<close>

definition StrUnsignedDecimalLiteral :: "string \<Rightarrow> jsnum" where
  "StrUnsignedDecimalLiteral s =
     (if s = ''Infinity'' then PosInf
      else
        let ip = takeWhile is_digit s;
            r1 = dropWhile is_digit s;
            dot = (r1 \<noteq> [] \<and> hd r1 = CHR ''.'');
            fp = (if dot then takeWhile is_digit (tl r1) else []);
            r2 = (if dot then dropWhile is_digit (tl r1) else r1)
        in if ip = [] \<and> fp = [] then NaN
           else case ExponentPart r2 of
                  None \<Rightarrow> NaN
                | Some e \<Rightarrow>
                    (case radix_val 10 (ip @ fp) of
                       None \<Rightarrow> NaN
                     | Some m \<Rightarrow> Fin (of_int m * pow10 (e - int (length fp)))))"

text \<open>\<open>StrNumericLiteral\<close>: a non-decimal literal (never signed), or a decimal one
  with an optional sign.\<close>

definition StrNumericLiteral :: "string \<Rightarrow> jsnum" where
  "StrNumericLiteral s =
     (case NonDecimalIntegerLiteral s of
        Some n \<Rightarrow> Fin (of_int n)
      | None \<Rightarrow>
          (case s of
             [] \<Rightarrow> NaN
           | c # t \<Rightarrow>
               if c = CHR ''-'' then num_neg (StrUnsignedDecimalLiteral t)
               else if c = CHR ''+'' then StrUnsignedDecimalLiteral t
               else StrUnsignedDecimalLiteral s))"

text \<open>\<open>StringToNumber\<close>: white space around the literal is ignored, and a string of
  white space only (the empty string too) is the number 0.\<close>

definition StringToNumber :: "string \<Rightarrow> jsnum" where
  "StringToNumber s = (let t = trim s in if t = [] then Fin 0 else StrNumericLiteral t)"

text \<open>\<^verbatim>\<open>Number(x)\<close> on a primitive value.\<close>

fun Number :: "jsval \<Rightarrow> jsnum" where
  "Number Undefined = NaN"
| "Number Null = Fin 0"
| "Number (Bool b) = Fin (if b then 1 else 0)"
| "Number (Num n) = n"
| "Number (Str s) = StringToNumber s"

subsection \<open>Reference limits\<close>

text \<open>
  The shape of \<^verbatim>\<open>DEFAULT_LIMITS\<close>. A bound is a number or absent (\<^verbatim>\<open>null\<close> or
  \<^verbatim>\<open>undefined\<close>, which the guards \<^verbatim>\<open>!= null\<close> and \<^verbatim>\<open>== null\<close> do not tell apart):
  \<open>None\<close> is the absent bound. The tier fields \<^verbatim>\<open>min\<close> and \<^verbatim>\<open>max\<close> are
  \<open>min_tier\<close> and \<open>max_tier\<close> here.
\<close>

record fisicoquimico =
  pH_min :: "jsnum option"
  pH_max :: "jsnum option"
  arsenico_mgL_max :: "jsnum option"
  nitratos_mgL_max :: "jsnum option"
  nitritos_mgL_max :: "jsnum option"
  conductividad_uScm_max :: "jsnum option"
  dureza_mgL_max :: "jsnum option"
  solidos_totales_mgL_max :: "jsnum option"
  calcio_mgL_max :: "jsnum option"
  magnesio_mgL_max :: "jsnum option"
  sodio_mgL_max :: "jsnum option"
  potasio_mgL_max :: "jsnum option"
  bicarbonato_mgL_max :: "jsnum option"
  carbonato_mgL_max :: "jsnum option"
  sulfatos_mgL_max :: "jsnum option"
  cloruros_mgL_max :: "jsnum option"
  temperatura_C_max :: "jsnum option"

record microbiologico =
  coliformes_totales :: "jsnum option"
  e_coli :: "jsnum option"
  salmonella :: "jsnum option"
  pseudomonas :: "jsnum option"
  aerobios_mesofilos_max :: "jsnum option"

record tasa =
  cat :: string
  monto :: jsnum

record tier = tasa +
  min_tier :: jsnum
  max_tier :: "jsnum option"

record limits =
  fisicoquimico :: fisicoquimico
  microbiologico :: microbiologico
  tasas_2024 :: "tier list"

definition DEFAULT_LIMITS :: limits where
  "DEFAULT_LIMITS =
    \<lparr> fisicoquimico =
        \<lparr> pH_min = Some (Fin (13 / 2)),
          pH_max = Some (Fin (17 / 2)),
          arsenico_mgL_max = Some (Fin (1 / 100)),
          nitratos_mgL_max = Some (Fin 45),
          nitritos_mgL_max = Some (Fin (1 / 10)),
          conductividad_uScm_max = Some (Fin 2000),
          dureza_mgL_max = Some (Fin 500),
          solidos_totales_mgL_max = Some (Fin 1500),
          calcio_mgL_max = Some (Fin 200),
          magnesio_mgL_max = Some (Fin 150),
          sodio_mgL_max = Some (Fin 200),
          potasio_mgL_max = Some (Fin 20),
          bicarbonato_mgL_max = Some (Fin 400),
          carbonato_mgL_max = Some (Fin 30),
          sulfatos_mgL_max = Some (Fin 400),
          cloruros_mgL_max = Some (Fin 250),
          temperatura_C_max = Some (Fin 30) \<rparr>,
      microbiologico =
        \<lparr> coliformes_totales = Some (Fin 0),
          e_coli = Some (Fin 0),
          salmonella = Some (Fin 0),
          pseudomonas = Some (Fin 0),
          aerobios_mesofilos_max = Some (Fin 100) \<rparr>,
      tasas_2024 =
        [ \<lparr> cat = ''I'', monto = Fin 90163, min_tier = Fin 0, max_tier = Some (Fin 500000) \<rparr>,
          \<lparr> cat = ''II'', monto = Fin 135245, min_tier = Fin 500000,
            max_tier = Some (Fin 1000000) \<rparr>,
          \<lparr> cat = ''III'', monto = Fin 180416, min_tier = Fin 1000000,
            max_tier = Some (Fin 5000000) \<rparr>,
          \<lparr> cat = ''IV'', monto = Fin 225409, min_tier = Fin 5000000,
            max_tier = Some (Fin 10000000) \<rparr>,
          \<lparr> cat = ''V'', monto = Fin 392591, min_tier = Fin 10000000, max_tier = None \<rparr> ] \<rparr>"

subsection \<open>Utilities: \<^verbatim>\<open>categoriaTasa\<close>, \<^verbatim>\<open>isFilled\<close>, \<^verbatim>\<open>withinRange\<close>\<close>

text \<open>The literal of the source for "no category": one em dash, U+2014.\<close>

definition emdash :: string where
  "emdash = [CHR 0xE2, CHR 0x80, CHR 0x94]"

definition sin_categoria :: tasa where
  "sin_categoria = \<lparr> cat = emdash, monto = Fin 0 \<rparr>"

text \<open>The test of \<^verbatim>\<open>find\<close> in \<^verbatim>\<open>categoriaTasa\<close>:
  \<^verbatim>\<open>t.max == null ? n >= t.min : n >= t.min && n < t.max\<close>.\<close>

definition tier_matches :: "jsnum \<Rightarrow> tier \<Rightarrow> bool" where
  "tier_matches n t =
     (case max_tier t of
        None \<Rightarrow> num_ge n (min_tier t)
      | Some m \<Rightarrow> num_ge n (min_tier t) \<and> num_lt n m)"

definition categoriaTasa :: "limits \<Rightarrow> jsval \<Rightarrow> tasa" where
  "categoriaTasa lims volAnual =
     (let n = Number volAnual in
      if \<not> isFinite n \<or> num_lt n (Fin 0) then sin_categoria
      else case List.find (tier_matches n) (tasas_2024 lims) of
             Some m \<Rightarrow> \<lparr> cat = cat m, monto = monto m \<rparr>
           | None \<Rightarrow> sin_categoria)"

text \<open>
  \<^verbatim>\<open>isFilled(x)\<close> is \<^verbatim>\<open>x !== null && x !== undefined && String(x).trim() !== ""\<close>.
  \<^verbatim>\<open>String\<close> of a number or of a boolean is never blank, so only a string is
  trimmed here.
\<close>

fun isFilled :: "jsval \<Rightarrow> bool" where
  "isFilled Null = False"
| "isFilled Undefined = False"
| "isFilled (Str s) = (trim s \<noteq> [])"
| "isFilled (Num n) = True"
| "isFilled (Bool b) = True"

text \<open>\<^verbatim>\<open>withinRange\<close> returns \<^verbatim>\<open>null\<close> (\<open>None\<close>), \<^verbatim>\<open>true\<close> or \<^verbatim>\<open>false\<close>.\<close>

definition withinRange :: "jsval \<Rightarrow> jsnum option \<Rightarrow> jsnum option \<Rightarrow> bool option" where
  "withinRange val mn mx =
     (let v = Number val in
      if \<not> isFinite v then None
      else if (case mn of None \<Rightarrow> False | Some lo \<Rightarrow> num_lt v lo) then Some False
      else if (case mx of None \<Rightarrow> False | Some hi \<Rightarrow> num_lt hi v) then Some False
      else Some True)"

subsection \<open>\<^verbatim>\<open>checkAnalisis\<close>\<close>

text \<open>An object read by property name; \<open>get ob k\<close> is \<^verbatim>\<open>ob[k]\<close>.\<close>

type_synonym jsobj = "string \<rightharpoonup> jsval"

definition get :: "jsobj \<Rightarrow> string \<Rightarrow> jsval" where
  "get ob k = (case ob k of None \<Rightarrow> Undefined | Some v \<Rightarrow> v)"

text \<open>
  The result of \<^verbatim>\<open>checkAnalisis\<close>. The object \<^verbatim>\<open>r\<close> is the list of its entries in
  the order the literal writes them, which is the order of \<^verbatim>\<open>Object.keys(r)\<close>. Reading
  \<^verbatim>\<open>r[k]\<close> is \<open>map_of (r res) k\<close>: \<open>None\<close> when there is no such entry
  (\<^verbatim>\<open>undefined\<close>), \<open>Some None\<close> for \<^verbatim>\<open>null\<close>, \<open>Some (Some b)\<close> for a boolean.
\<close>

record analisis_result =
  r :: "(string \<times> bool option) list"
  present :: nat
  ok :: nat
  bad :: nat

definition checkAnalisis_r :: "jsobj \<Rightarrow> limits \<Rightarrow> (string \<times> bool option) list" where
  "checkAnalisis_r analisis lims =
     (let L = fisicoquimico lims; M = microbiologico lims in
      [ (''pH'', withinRange (get analisis ''pH'') (pH_min L) (pH_max L)),
        (''arsenico'', withinRange (get analisis ''arsenico'') None (arsenico_mgL_max L)),
        (''nitratos'', withinRange (get analisis ''nitratos'') None (nitratos_mgL_max L)),
        (''nitritos'', withinRange (get analisis ''nitritos'') None (nitritos_mgL_max L)),
        (''conductividad'',
           withinRange (get analisis ''conductividad'') None (conductividad_uScm_max L)),
        (''dureza'', withinRange (get analisis ''dureza'') None (dureza_mgL_max L)),
        (''std'', withinRange (get analisis ''std'') None (solidos_totales_mgL_max L)),
        (''calcio'', withinRange (get analisis ''calcio'') None (calcio_mgL_max L)),
        (''magnesio'', withinRange (get analisis ''magnesio'') None (magnesio_mgL_max L)),
        (''sodio'', withinRange (get analisis ''sodio'') None (sodio_mgL_max L)),
        (''potasio'', withinRange (get analisis ''potasio'') None (potasio_mgL_max L)),
        (''bicarbonato'', withinRange (get analisis ''bicarbonato'') None (bicarbonato_mgL_max L)),
        (''carbonato'', withinRange (get analisis ''carbonato'') None (carbonato_mgL_max L)),
        (''sulfatos'', withinRange (get analisis ''sulfatos'') None (sulfatos_mgL_max L)),
        (''cloruros'', withinRange (get analisis ''cloruros'') None (cloruros_mgL_max L)),
        (''temperatura'', withinRange (get analisis ''temperatura'') None (temperatura_C_max L)),
        (''coliformes'', withinRange (get analisis ''coliformes'') (Some (Fin 0)) (Some (Fin 0))),
        (''ecoli'', withinRange (get analisis ''ecoli'') (Some (Fin 0)) (Some (Fin 0))),
        (''salmonella'', withinRange (get analisis ''salmonella'') (Some (Fin 0)) (Some (Fin 0))),
        (''pseudomonas'',
           withinRange (get analisis ''pseudomonas'') (Some (Fin 0)) (Some (Fin 0))),
        (''aerobios'', withinRange (get analisis ''aerobios'') None (aerobios_mesofilos_max M)) ])"

definition checkAnalisis :: "jsobj \<Rightarrow> limits \<Rightarrow> analisis_result" where
  "checkAnalisis analisis lims =
     (let res = checkAnalisis_r analisis lims;
          keys = map fst res
      in \<lparr> r = res,
           present = length (filter (\<lambda>k. map_of res k \<noteq> Some None) keys),
           ok = length (filter (\<lambda>k. map_of res k = Some (Some True)) keys),
           bad = length (filter (\<lambda>k. map_of res k = Some (Some False)) keys) \<rparr>)"

subsection \<open>\<^verbatim>\<open>sectionStatus\<close>\<close>

text \<open>A badge: the fields \<^verbatim>\<open>color\<close> and \<^verbatim>\<open>text\<close> (\<open>text_s\<close> here).\<close>

record status =
  color :: string
  text_s :: string

definition sectionStatus :: "jsobj \<Rightarrow> string list \<Rightarrow> status" where
  "sectionStatus completos requeridos =
     (let total = length requeridos;
          llenos = length (filter (\<lambda>k. isFilled (get completos k)) requeridos)
      in if total = 0 then \<lparr> color = ''gray'', text_s = emdash \<rparr>
         else if llenos = total then \<lparr> color = ''green'', text_s = ''Completo'' \<rparr>
         else if llenos = 0 then
           \<lparr> color = ''red'', text_s = ''Vac'' @ [CHR 0xC3, CHR 0xAD] @ ''o'' \<rparr>
         else \<lparr> color = ''yellow'', text_s = ''Incompleto'' \<rparr>)"

subsection \<open>The dossier and the values \<^verbatim>\<open>ChecklistApp\<close> derives from it\<close>

text \<open>
  The shape of \<^verbatim>\<open>EMPTY_EXPEDIENTE\<close>. The sections read by property name
  (\<^verbatim>\<open>basicos\<close>, \<^verbatim>\<open>tecnicos\<close>, \<^verbatim>\<open>analisis\<close>) are objects; the check boxes are
  booleans.
\<close>

record meta =
  expedienteId :: string
  fecha :: string
  revisadoPor :: string

record docs =
  tituloPropiedad :: bool
  permisoExploracion :: bool
  ensayoBombeo :: bool
  estudioInterferencia :: bool
  perfilesLitologicos :: bool
  memoriaDescriptiva :: bool
  anexos :: "string list"

record firmas =
  propietario :: bool
  profesional :: bool
  declaracionJurada :: bool

record expediente =
  meta :: meta
  basicos :: jsobj
  tecnicos :: jsobj
  docs :: docs
  analisis :: jsobj
  firmas :: firmas

definition basicos_requeridos :: "string list" where
  "basicos_requeridos =
     [''propietario'', ''cuit'', ''domicilio'', ''contacto'', ''perforista'',
      ''perforistaRegistro'']"

definition tecnicos_requeridos :: "string list" where
  "tecnicos_requeridos =
     [''departamento'', ''localidad'', ''partida'', ''coords_gms'', ''profundidad_m'',
      ''diametro_pulg'', ''caudal_m3h'', ''caudal_anual_m3'', ''horas_anuales'', ''uso'',
      ''acuifero'']"

definition basicosStatus :: "expediente \<Rightarrow> status" where
  "basicosStatus e = sectionStatus (basicos e) basicos_requeridos"

definition tecnicosStatus :: "expediente \<Rightarrow> status" where
  "tecnicosStatus e = sectionStatus (tecnicos e) tecnicos_requeridos"

definition docsOkCount :: "expediente \<Rightarrow> nat" where
  "docsOkCount e =
     length (filter (\<lambda>b. b)
       [tituloPropiedad (docs e), permisoExploracion (docs e), ensayoBombeo (docs e),
        estudioInterferencia (docs e), perfilesLitologicos (docs e),
        memoriaDescriptiva (docs e)])"

text \<open>Of the badges \<^verbatim>\<open>docsStatus\<close> and \<^verbatim>\<open>analStatus\<close> only the colour is
  translated: the verdict reads nothing else of them.\<close>

definition docsStatus_color :: "expediente \<Rightarrow> string" where
  "docsStatus_color e =
     (if docsOkCount e = 6 then ''green''
      else if docsOkCount e = 0 then ''red'' else ''yellow'')"

definition anal :: "expediente \<Rightarrow> limits \<Rightarrow> analisis_result" where
  "anal e lims = checkAnalisis (analisis e) lims"

definition analStatus_color :: "expediente \<Rightarrow> limits \<Rightarrow> string" where
  "analStatus_color e lims =
     (if bad (anal e lims) = 0 \<and> present (anal e lims) > 0 then ''green''
      else if present (anal e lims) = 0 then ''red'' else ''yellow'')"

definition firmasOk :: "expediente \<Rightarrow> bool" where
  "firmasOk e \<longleftrightarrow>
     propietario (firmas e) \<and> profesional (firmas e) \<and> declaracionJurada (firmas e)"

definition allGreen :: "expediente \<Rightarrow> limits \<Rightarrow> bool" where
  "allGreen e lims \<longleftrightarrow>
     color (basicosStatus e) = ''green'' \<and>
     color (tecnicosStatus e) = ''green'' \<and>
     docsStatus_color e = ''green'' \<and>
     analStatus_color e lims \<noteq> ''red'' \<and>
     firmasOk e"

subsection \<open>Export and import of the JSON document\<close>

text \<open>
  \<^verbatim>\<open>exportJSON\<close> hands the object \<^verbatim>\<open>{ exp, limits }\<close> to \<^verbatim>\<open>JSON.stringify\<close> and
  \<^verbatim>\<open>importJSON\<close> hands the text of the chosen file to \<^verbatim>\<open>JSON.parse\<close>. Both are
  functions of the platform, not of this program, and they are not translated: a
  text is represented by what \<^verbatim>\<open>JSON.parse\<close> makes of it, which is either a
  \<^verbatim>\<open>SyntaxError\<close> (the text is not well-formed JSON) or the JSON value the text
  denotes. On this reading the text that \<^verbatim>\<open>JSON.stringify\<close> writes for a JSON value
  \<open>d\<close> is parsed back as \<open>Inr d\<close>.

  For this pair of handlers the two state variables hold JSON values of any shape,
  since \<^verbatim>\<open>importJSON\<close> stores what the file holds without looking at it.
\<close>

datatype json =
  JNull | JBool bool | JNum rat | JStr string | JArr "json list" | JObj "(string \<times> json) list"

datatype js_error = SyntaxError | TypeError

record app_state =
  limits_state :: json
  exp_state :: json

text \<open>
  \<^verbatim>\<open>obj[k]\<close> for a name \<open>k\<close> that is neither \<^verbatim>\<open>length\<close> nor an index: a
  \<^verbatim>\<open>TypeError\<close> on \<^verbatim>\<open>null\<close>, the entry of an object, and \<^verbatim>\<open>undefined\<close> (\<open>None\<close>)
  otherwise.
\<close>

fun member :: "json \<Rightarrow> string \<Rightarrow> js_error + json option" where
  "member JNull k = Inl TypeError"
| "member (JObj kvs) k = Inr (map_of kvs k)"
| "member (JBool b) k = Inr None"
| "member (JNum x) k = Inr None"
| "member (JStr s) k = Inr None"
| "member (JArr xs) k = Inr None"

text \<open>The truth value of \<^verbatim>\<open>if (x)\<close>.\<close>

fun truthy :: "json option \<Rightarrow> bool" where
  "truthy None = False"
| "truthy (Some JNull) = False"
| "truthy (Some (JBool b)) = b"
| "truthy (Some (JNum x)) = (x \<noteq> 0)"
| "truthy (Some (JStr s)) = (s \<noteq> [])"
| "truthy (Some (JArr xs)) = True"
| "truthy (Some (JObj kvs)) = True"


text \<open>The message of \<^verbatim>\<open>alert("Archivo inv\<close>...\<^verbatim>\<open>lido")\<close>.\<close>

definition archivo_invalido :: string where
  "archivo_invalido = ''Archivo inv'' @ [CHR 0xC3, CHR 0xA1] @ ''lido''"

text \<open>
  \<^verbatim>\<open>reader.onload\<close> of \<^verbatim>\<open>importJSON\<close>, given the outcome of \<^verbatim>\<open>JSON.parse\<close>: the new
  state and the alert shown, if any. Whatever is thrown in the \<^verbatim>\<open>try\<close> block ends
  it and raises the alert; what was stored before stays stored.
\<close>

definition importJSON :: "js_error + json \<Rightarrow> app_state \<Rightarrow> app_state \<times> string option" where
  "importJSON parsed st =
     (case parsed of
        Inl err \<Rightarrow> (st, Some archivo_invalido)
      | Inr obj \<Rightarrow>
          (case member obj ''limits'' of
             Inl err \<Rightarrow> (st, Some archivo_invalido)
           | Inr l \<Rightarrow>
               let st1 = (case l of
                            Some v \<Rightarrow> if truthy l then st\<lparr>limits_state := v\<rparr> else st
                          | None \<Rightarrow> st)
               in (case member obj ''exp'' of
                     Inl err \<Rightarrow> (st1, Some archivo_invalido)
                   | Inr x \<Rightarrow>
                       (case x of
                          Some v \<Rightarrow> if truthy x then (st1\<lparr>exp_state := v\<rparr>, None)
                                    else (st1, None)
                        | None \<Rightarrow> (st1, None)))))"

subsection \<open>Bulk load of the analysis from CSV\<close>

text \<open>\<^verbatim>\<open>s.split(/\r?\n/)\<close>: the pieces of \<open>s\<close> between line breaks, a line break
  being LF or CR LF; \<open>cur\<close> is the piece read so far.\<close>

fun split_lines_from :: "string \<Rightarrow> string \<Rightarrow> string list" where
  "split_lines_from cur [] = [cur]"
| "split_lines_from cur [c] = (if c = CHR 0x0A then [cur, []] else [cur @ [c]])"
| "split_lines_from cur (c # d # s) =
     (if c = CHR 0x0D \<and> d = CHR 0x0A then cur # split_lines_from [] s
      else if c = CHR 0x0A then cur # split_lines_from [] (d # s)
      else split_lines_from (cur @ [c]) (d # s))"

definition split_lines :: "string \<Rightarrow> string list" where
  "split_lines s = split_lines_from [] s"

text \<open>\<^verbatim>\<open>s.split(/[,\t;]+/)\<close>: the pieces of \<open>s\<close> between maximal runs of commas,
  tabs and semicolons.\<close>

definition is_sep :: "char \<Rightarrow> bool" where
  "is_sep c \<longleftrightarrow> c = CHR '','' \<or> c = CHR 0x09 \<or> c = CHR '';''"

function split_fields_from :: "string \<Rightarrow> string \<Rightarrow> string list" where
  "split_fields_from cur [] = [cur]"
| "split_fields_from cur (c # s) =
     (if is_sep c then cur # split_fields_from [] (dropWhile is_sep s)
      else split_fields_from (cur @ [c]) s)"
  by pat_completeness auto
termination
  by (relation "measure (\<lambda>(cur, s). length s)")
     (auto simp: length_dropWhile_le less_Suc_eq_le)

definition split_fields :: "string \<Rightarrow> string list" where
  "split_fields s = split_fields_from [] s"

text \<open>\<^verbatim>\<open>headers.map((h, i) => [h, values[i]])\<close>: past the end of \<^verbatim>\<open>values\<close> the
  entry holds \<^verbatim>\<open>undefined\<close>.\<close>

fun entries :: "string list \<Rightarrow> string list \<Rightarrow> (string \<times> jsval) list" where
  "entries [] vs = []"
| "entries (h # hs) [] = (h, Undefined) # entries hs []"
| "entries (h # hs) (v # vs) = (h, Str v) # entries hs vs"

text \<open>\<^verbatim>\<open>Object.fromEntries\<close>: a later entry replaces an earlier one of the same key.\<close>

definition put_entry :: "jsobj \<Rightarrow> string \<times> jsval \<Rightarrow> jsobj" where
  "put_entry m kv = m(fst kv \<mapsto> snd kv)"

definition fromEntries :: "(string \<times> jsval) list \<Rightarrow> jsobj" where
  "fromEntries es = foldl put_entry Map.empty es"

definition bulk_keys :: "string list" where
  "bulk_keys =
     [''ph'', ''arsenico'', ''nitratos'', ''nitritos'', ''conductividad'', ''dureza'', ''std'',
      ''calcio'', ''magnesio'', ''sodio'', ''potasio'', ''bicarbonato'', ''carbonato'',
      ''sulfatos'', ''cloruros'', ''temperatura'', ''coliformes'', ''ecoli'', ''salmonella'',
      ''pseudomonas'', ''aerobios'']"

text \<open>The body of \<^verbatim>\<open>keys.forEach\<close>, on the object \<^verbatim>\<open>next\<close>.\<close>

definition assign_key :: "jsobj \<Rightarrow> jsobj \<Rightarrow> string \<Rightarrow> jsobj" where
  "assign_key m next k =
     (if get m k \<noteq> Null \<and> get m k \<noteq> Undefined then
        (if k = ''ph'' then next(''pH'' \<mapsto> get m k) else next(k \<mapsto> get m k))
      else next)"

definition csv_error :: string where
  "csv_error = ''No se pudo procesar el CSV''"

text \<open>
  The handler of the button "Aplicar", given the text of the modal: the new dossier
  and the alert shown, if any. Fewer than two lines throw, and the \<^verbatim>\<open>catch\<close> raises
  the alert without a call of \<^verbatim>\<open>setExp\<close>.
\<close>

definition applyBulk :: "string \<Rightarrow> expediente \<Rightarrow> expediente \<times> string option" where
  "applyBulk bulkText e =
     (case split_lines (trim bulkText) of
        l0 # l1 # rest \<Rightarrow>
          let headers = map (\<lambda>h. toLowerCase (trim h)) (split_fields l0);
              vals = map trim (split_fields l1);
              m = fromEntries (entries headers vals);
              next = foldl (assign_key m) (analisis e) bulk_keys
          in (e\<lparr>analisis := next\<rparr>, None)
      | _ \<Rightarrow> (e, Some csv_error))"

subsection \<open>Concrete inputs\<close>




text \<open>An analysis with \<^verbatim>\<open>ecoli: "0"\<close> and \<^verbatim>\<open>salmonella: "3"\<close>.\<close>

definition analisis_micro :: jsobj where
  "analisis_micro = [''ecoli'' \<mapsto> Str ''0'', ''salmonella'' \<mapsto> Str ''3'']"

text \<open>A dossier with every required field filled, every document and signature
  ticked, and the analysis values pH 7.2 and colour 5.\<close>

definition exp_completo :: expediente where
  "exp_completo =
     \<lparr> meta = \<lparr> expedienteId = ''E-1'', fecha = ''2024-05-02'', revisadoPor = ''RV'' \<rparr>,
       basicos =
         [''propietario'' \<mapsto> Str ''Ana'', ''cuit'' \<mapsto> Str ''20-1-3'',
          ''domicilio'' \<mapsto> Str ''Ruta 12'', ''contacto'' \<mapsto> Str ''ana'',
          ''autorizacionNoPropietario'' \<mapsto> Bool False,
          ''perforista'' \<mapsto> Str ''Luis'', ''perforistaRegistro'' \<mapsto> Str ''123''],
       tecnicos =
         [''departamento'' \<mapsto> Str ''Colon'', ''localidad'' \<mapsto> Str ''Ubajay'',
          ''partida'' \<mapsto> Str ''77'', ''coords_gms'' \<mapsto> Str ''31 47 0 S'',
          ''profundidad_m'' \<mapsto> Str ''60'', ''diametro_pulg'' \<mapsto> Str ''6'',
          ''caudal_m3h'' \<mapsto> Str ''20'', ''caudal_anual_m3'' \<mapsto> Str ''500000'',
          ''horas_anuales'' \<mapsto> Str ''2000'', ''uso'' \<mapsto> Str ''riego'',
          ''acuifero'' \<mapsto> Str ''Salto Chico''],
       docs =
         \<lparr> tituloPropiedad = True, permisoExploracion = True, ensayoBombeo = True,
           estudioInterferencia = True, perfilesLitologicos = True,
           memoriaDescriptiva = True, anexos = [] \<rparr>,
       analisis = [''pH'' \<mapsto> Str ''7.2'', ''color'' \<mapsto> Str ''5''],
       firmas = \<lparr> propietario = True, profesional = True, declaracionJurada = True \<rparr> \<rparr>"

text \<open>The field of \<^verbatim>\<open>next\<close> that \<^verbatim>\<open>keys.forEach\<close> writes for the key \<open>k\<close>:
  \<^verbatim>\<open>pH\<close> for \<^verbatim>\<open>ph\<close>, and \<open>k\<close> itself otherwise.\<close>

definition target_field :: "string \<Rightarrow> string" where
  "target_field k = (if k = ''ph'' then ''pH'' else k)"

text \<open>The text of the self-test: \<^verbatim>\<open>"ph,arsenico;nitritos\tconductividad\n7,0.01;0.05\t1200"\<close>.\<close>

definition sampleCSV :: string where
  "sampleCSV =
     ''ph,arsenico;nitritos'' @ [CHR 0x09] @ ''conductividad'' @ [CHR 0x0A] @
     ''7,0.01;0.05'' @ [CHR 0x09] @ ''1200''"



section \<open>Properties\<close>

subsection \<open>Evaluation of \<^verbatim>\<open>Number\<close> on the strings used below\<close>

lemma trim_empty: "trim [] = []"
  by (simp add: trim_def strip.simps ws_tokens_def)

lemma StringToNumber_blank3: "StringToNumber ''   '' = Fin 0"
  by code_simp



lemma StringToNumber_500000: "StringToNumber ''500000'' = Fin 500000"
  by code_simp

lemma StringToNumber_0: "StringToNumber ''0'' = Fin 0"
  by code_simp

lemma StringToNumber_3: "StringToNumber ''3'' = Fin 3"
  by code_simp

subsection \<open>The limit evaluator\<close>

lemma withinRange_not_finite: "\<not> isFinite (Number v) \<Longrightarrow> withinRange v mn mx = None"
  by (simp add: withinRange_def)

lemma withinRange_finite: "isFinite (Number v) \<Longrightarrow> withinRange v mn mx \<noteq> None"
  by (auto simp: withinRange_def Let_def)

lemma withinRange_blank: "trim s = [] \<Longrightarrow> withinRange (Str s) mn mx \<noteq> None"
  by (rule withinRange_finite) (simp add: StringToNumber_def)

text \<open>
  C1. The claim: a blank string or non-numeric text as value gives the state
  \<^verbatim>\<open>null\<close>, whatever the bounds. The code does not do this for a blank string:
  \<^verbatim>\<open>Number("")\<close> is 0, which is finite, so the empty string is compared with the
  bounds like the number 0. With the default bounds of pH the empty string is out of
  range, with an upper bound only it is in range, and a string of spaces is "absent"
  for the microbiological parameters. The self-test of the source expects
  \<^verbatim>\<open>withinRange("", 6.5, 8.5) === null\<close>.
\<close>

theorem withinRange_blank_is_not_null:
  "withinRange (Str '''') (Some (Fin (13 / 2))) (Some (Fin (17 / 2))) = Some False \<and>
   withinRange (Str '''') None (Some (Fin (1 / 100))) = Some True \<and>
   withinRange (Str ''   '') (Some (Fin 0)) (Some (Fin 0)) = Some True"
  using StringToNumber_blank3 by (simp add: withinRange_def StringToNumber_def trim_empty)

lemma withinRange_zero:
  "withinRange v (Some (Fin 0)) (Some (Fin 0)) =
     (case Number v of Fin x \<Rightarrow> Some (x = 0) | _ \<Rightarrow> None)"
  by (cases "Number v") (auto simp: withinRange_def)

lemma map_of_micro:
  "k \<in> {''coliformes'', ''ecoli'', ''salmonella'', ''pseudomonas''} \<Longrightarrow>
   map_of (checkAnalisis_r a lims) k =
     Some (withinRange (get a k) (Some (Fin 0)) (Some (Fin 0)))"
  by (auto simp: checkAnalisis_r_def Let_def)

lemma r_checkAnalisis: "r (checkAnalisis a lims) = checkAnalisis_r a lims"
  by (simp add: checkAnalisis_def Let_def)

text \<open>
  C4. For each of \<^verbatim>\<open>coliformes\<close>, \<^verbatim>\<open>ecoli\<close>, \<^verbatim>\<open>salmonella\<close> and \<^verbatim>\<open>pseudomonas\<close>
  the state is \<^verbatim>\<open>true\<close> if and only if the value converts to the number 0, it is
  \<^verbatim>\<open>false\<close> for every value that converts to a finite number other than 0, and it is
  \<^verbatim>\<open>null\<close> when the value converts to \<open>NaN\<close> or to an infinity. The limits play no
  part: the bounds 0 and 0 are written in \<^verbatim>\<open>checkAnalisis\<close>.
\<close>

theorem micro_absence:
  "k \<in> {''coliformes'', ''ecoli'', ''salmonella'', ''pseudomonas''} \<Longrightarrow>
   (map_of (r (checkAnalisis a lims)) k = Some (Some True) \<longleftrightarrow> Number (get a k) = Fin 0) \<and>
   (\<forall>x. Number (get a k) = Fin x \<and> x \<noteq> 0 \<longrightarrow>
        map_of (r (checkAnalisis a lims)) k = Some (Some False)) \<and>
   (\<not> isFinite (Number (get a k)) \<longrightarrow> map_of (r (checkAnalisis a lims)) k = Some None)"
  by (cases "Number (get a k)")
     (simp_all add: r_checkAnalisis map_of_micro withinRange_zero del: insert_iff)

theorem micro_absence_witness:
  "''ecoli'' \<in> {''coliformes'', ''ecoli'', ''salmonella'', ''pseudomonas''} \<and>
   Number (get analisis_micro ''ecoli'') = Fin 0 \<and>
   map_of (r (checkAnalisis analisis_micro DEFAULT_LIMITS)) ''ecoli'' = Some (Some True) \<and>
   ''salmonella'' \<in> {''coliformes'', ''ecoli'', ''salmonella'', ''pseudomonas''} \<and>
   Number (get analisis_micro ''salmonella'') = Fin 3 \<and> (3 :: rat) \<noteq> 0 \<and>
   map_of (r (checkAnalisis analisis_micro DEFAULT_LIMITS)) ''salmonella'' = Some (Some False) \<and>
   ''coliformes'' \<in> {''coliformes'', ''ecoli'', ''salmonella'', ''pseudomonas''} \<and>
   \<not> isFinite (Number (get analisis_micro ''coliformes'')) \<and>
   map_of (r (checkAnalisis analisis_micro DEFAULT_LIMITS)) ''coliformes'' = Some None"
proof -
  have e: "Number (get analisis_micro ''ecoli'') = Fin 0"
    by (simp add: analisis_micro_def get_def StringToNumber_0)
  have s: "Number (get analisis_micro ''salmonella'') = Fin 3 \<and> (3 :: rat) \<noteq> 0"
    by (simp add: analisis_micro_def get_def StringToNumber_3)
  have c: "\<not> isFinite (Number (get analisis_micro ''coliformes''))"
    by (simp add: analisis_micro_def get_def)
  have ke: "''ecoli'' \<in> {''coliformes'', ''ecoli'', ''salmonella'', ''pseudomonas''}"
    and ks: "''salmonella'' \<in> {''coliformes'', ''ecoli'', ''salmonella'', ''pseudomonas''}"
    and kc: "''coliformes'' \<in> {''coliformes'', ''ecoli'', ''salmonella'', ''pseudomonas''}"
    by simp_all
  from micro_absence [OF ke, of analisis_micro DEFAULT_LIMITS] e
  have 1: "map_of (r (checkAnalisis analisis_micro DEFAULT_LIMITS)) ''ecoli'' = Some (Some True)"
    by blast
  from micro_absence [OF ks, of analisis_micro DEFAULT_LIMITS] s
  have 2: "map_of (r (checkAnalisis analisis_micro DEFAULT_LIMITS)) ''salmonella'' =
             Some (Some False)"
    by blast
  from micro_absence [OF kc, of analisis_micro DEFAULT_LIMITS] c
  have 3: "map_of (r (checkAnalisis analisis_micro DEFAULT_LIMITS)) ''coliformes'' = Some None"
    by blast
  from e s c ke ks kc 1 2 3 show ?thesis by blast
qed

lemma length_checkAnalisis_r: "length (checkAnalisis_r a lims) = 21"
  by (simp add: checkAnalisis_r_def Let_def)

lemma tri_state_count:
  "\<forall>k \<in> set ks. m k \<noteq> None \<Longrightarrow>
   length (filter (\<lambda>k. m k \<noteq> Some None) ks) =
   length (filter (\<lambda>k. m k = Some (Some True)) ks) +
   length (filter (\<lambda>k. m k = Some (Some False)) ks)"
proof (induction ks)
  case Nil
  show ?case by simp
next
  case (Cons k ks)
  from Cons.prems obtain s where s: "m k = Some s" by auto
  from Cons have IH:
    "length (filter (\<lambda>k. m k \<noteq> Some None) ks) =
     length (filter (\<lambda>k. m k = Some (Some True)) ks) +
     length (filter (\<lambda>k. m k = Some (Some False)) ks)" by simp
  show ?case
  proof (cases s)
    case None
    with s IH show ?thesis by simp
  next
    case (Some b)
    with s IH show ?thesis by (cases b) simp_all
  qed
qed

lemma map_of_keys_defined: "\<forall>k \<in> set (map fst res). map_of res k \<noteq> None"
  by (auto simp: map_of_eq_None_iff)

lemma checkAnalisis_r_frame:
  "checkAnalisis_r (a(''color'' := x, ''olor'' := y, ''turbiedad'' := z)) lims =
   checkAnalisis_r a lims"
  by (simp add: checkAnalisis_r_def get_def)

text \<open>
  C10. For every analysis and every table of limits the counts of \<^verbatim>\<open>checkAnalisis\<close>
  satisfy \<^verbatim>\<open>present = ok + bad\<close>, none of the three exceeds 21 (they are natural
  numbers, so none is negative), and the result is the same whatever the fields
  \<^verbatim>\<open>color\<close>, \<^verbatim>\<open>olor\<close> and \<^verbatim>\<open>turbiedad\<close> hold or whether they are there at all.
\<close>

theorem checkAnalisis_counts:
  "present (checkAnalisis a lims) = ok (checkAnalisis a lims) + bad (checkAnalisis a lims) \<and>
   present (checkAnalisis a lims) \<le> 21 \<and>
   ok (checkAnalisis a lims) \<le> 21 \<and>
   bad (checkAnalisis a lims) \<le> 21 \<and>
   checkAnalisis (a(''color'' := x, ''olor'' := y, ''turbiedad'' := z)) lims =
     checkAnalisis a lims"
proof -
  let ?res = "checkAnalisis_r a lims"
  have len: "length (map fst ?res) = 21"
    by (simp add: length_checkAnalisis_r)
  have sum: "present (checkAnalisis a lims) =
             ok (checkAnalisis a lims) + bad (checkAnalisis a lims)"
    using tri_state_count [OF map_of_keys_defined, of ?res]
    by (simp add: checkAnalisis_def Let_def)
  have "length (filter (\<lambda>k. map_of ?res k \<noteq> Some None) (map fst ?res))
          \<le> length (map fst ?res)"
    by (rule length_filter_le)
  with len have p: "present (checkAnalisis a lims) \<le> 21"
    by (simp add: checkAnalisis_def Let_def del: filter_map)
  from sum p have o: "ok (checkAnalisis a lims) \<le> 21"
    and b: "bad (checkAnalisis a lims) \<le> 21"
    by simp_all
  have f: "checkAnalisis (a(''color'' := x, ''olor'' := y, ''turbiedad'' := z)) lims =
           checkAnalisis a lims"
    by (simp add: checkAnalisis_def checkAnalisis_r_frame)
  from sum p o b f show ?thesis by simp
qed

subsection \<open>The fee classifier\<close>



text \<open>
  C3. With the default table the volumes 0 and 499999 are in category I, 500000 is
  in category II (as a number and as the text the form holds), 10000000 and 99999999
  are in category V, and so is every volume from 10000000 on: the last tier has no
  upper bound.
\<close>

theorem categoriaTasa_default_tiers:
  "cat (categoriaTasa DEFAULT_LIMITS (Num (Fin 0))) = ''I'' \<and>
   cat (categoriaTasa DEFAULT_LIMITS (Num (Fin 499999))) = ''I'' \<and>
   cat (categoriaTasa DEFAULT_LIMITS (Num (Fin 500000))) = ''II'' \<and>
   cat (categoriaTasa DEFAULT_LIMITS (Str ''500000'')) = ''II'' \<and>
   cat (categoriaTasa DEFAULT_LIMITS (Num (Fin 10000000))) = ''V'' \<and>
   cat (categoriaTasa DEFAULT_LIMITS (Num (Fin 99999999))) = ''V'' \<and>
   (\<forall>x. 10000000 \<le> x \<longrightarrow>
        categoriaTasa DEFAULT_LIMITS (Num (Fin x)) = \<lparr>cat = ''V'', monto = Fin 392591\<rparr>)"
  using StringToNumber_500000
  by (simp add: categoriaTasa_def DEFAULT_LIMITS_def tier_matches_def)

theorem categoriaTasa_default_tiers_witness:
  "(10000000 :: rat) \<le> 123456789012 \<and>
   categoriaTasa DEFAULT_LIMITS (Num (Fin 123456789012)) = \<lparr>cat = ''V'', monto = Fin 392591\<rparr>"
proof -
  have h: "(10000000 :: rat) \<le> 123456789012" by simp
  with categoriaTasa_default_tiers show ?thesis by blast
qed

subsection \<open>Section completeness\<close>

lemma length_filter_all: "length (filter P xs) = length xs \<longleftrightarrow> (\<forall>x \<in> set xs. P x)"
proof
  assume eq: "length (filter P xs) = length xs"
  show "\<forall>x \<in> set xs. P x"
  proof
    fix x assume "x \<in> set xs"
    then show "P x" using eq length_filter_less [of x xs P] by auto
  qed
next
  assume "\<forall>x \<in> set xs. P x"
  then have "filter P xs = xs" by (simp add: filter_id_conv)
  then show "length (filter P xs) = length xs" by simp
qed




subsection \<open>The overall verdict\<close>

lemma sectionStatus_green:
  "color (sectionStatus c requeridos) = ''green'' \<longleftrightarrow>
     requeridos \<noteq> [] \<and> (\<forall>k \<in> set requeridos. isFilled (get c k))"
  using length_filter_all [of "\<lambda>k. isFilled (get c k)" requeridos]
  by (auto simp: sectionStatus_def Let_def)

lemma docs_green:
  "docsStatus_color e = ''green'' \<longleftrightarrow>
     tituloPropiedad (docs e) \<and> permisoExploracion (docs e) \<and> ensayoBombeo (docs e) \<and>
     estudioInterferencia (docs e) \<and> perfilesLitologicos (docs e) \<and>
     memoriaDescriptiva (docs e)"
  by (auto simp: docsStatus_color_def docsOkCount_def split: if_splits)

lemma anal_not_red: "analStatus_color e lims \<noteq> ''red'' \<longleftrightarrow> present (anal e lims) \<noteq> 0"
  by (auto simp: analStatus_color_def)

lemma present_pos:
  "present (checkAnalisis a lims) \<noteq> 0 \<longleftrightarrow>
     (\<exists>k b. map_of (r (checkAnalisis a lims)) k = Some (Some b))"
proof -
  let ?res = "checkAnalisis_r a lims"
  have "present (checkAnalisis a lims) \<noteq> 0 \<longleftrightarrow>
          (\<exists>k \<in> fst ` set ?res. map_of ?res k \<noteq> Some None)"
    by (auto simp: checkAnalisis_def Let_def filter_empty_conv)
  also have "\<dots> \<longleftrightarrow> (\<exists>k b. map_of ?res k = Some (Some b))"
  proof
    assume "\<exists>k \<in> fst ` set ?res. map_of ?res k \<noteq> Some None"
    then obtain k where k: "k \<in> fst ` set ?res" "map_of ?res k \<noteq> Some None" by blast
    from k(1) have "map_of ?res k \<noteq> None" by (simp add: map_of_eq_None_iff)
    then obtain s where "map_of ?res k = Some s" by auto
    with k(2) show "\<exists>k b. map_of ?res k = Some (Some b)" by (cases s) auto
  next
    assume "\<exists>k b. map_of ?res k = Some (Some b)"
    then obtain k b where kb: "map_of ?res k = Some (Some b)" by blast
    then have "map_of ?res k \<noteq> None" by simp
    then have "k \<in> fst ` set ?res" by (simp add: map_of_eq_None_iff)
    with kb show "\<exists>k \<in> fst ` set ?res. map_of ?res k \<noteq> Some None" by (intro bexI [of _ k]) simp_all
  qed
  finally show ?thesis by (simp add: r_checkAnalisis)
qed

text \<open>
  C6. The verdict \<^verbatim>\<open>allGreen\<close> holds if and only if every required field of
  \<^verbatim>\<open>basicos\<close> is filled, every required field of \<^verbatim>\<open>tecnicos\<close> is filled, the six
  document flags are set, at least one analysis parameter has a state other than
  \<^verbatim>\<open>null\<close>, and the three signature flags are set. Moreover, writing into an approved
  dossier an analysis value that is out of range for its parameter leaves the
  dossier approved.
\<close>

theorem allGreen_iff:
  "(allGreen e lims \<longleftrightarrow>
      (\<forall>k \<in> set basicos_requeridos. isFilled (get (basicos e) k)) \<and>
      (\<forall>k \<in> set tecnicos_requeridos. isFilled (get (tecnicos e) k)) \<and>
      (tituloPropiedad (docs e) \<and> permisoExploracion (docs e) \<and> ensayoBombeo (docs e) \<and>
       estudioInterferencia (docs e) \<and> perfilesLitologicos (docs e) \<and>
       memoriaDescriptiva (docs e)) \<and>
      (\<exists>k b. map_of (r (anal e lims)) k = Some (Some b)) \<and>
      (propietario (firmas e) \<and> profesional (firmas e) \<and> declaracionJurada (firmas e))) \<and>
   (\<forall>k v. allGreen e lims \<and>
          map_of (r (checkAnalisis ((analisis e)(k \<mapsto> v)) lims)) k = Some (Some False) \<longrightarrow>
          allGreen (e\<lparr>analisis := (analisis e)(k \<mapsto> v)\<rparr>) lims)"
proof -
  have b: "basicos_requeridos \<noteq> []" and t: "tecnicos_requeridos \<noteq> []"
    by (simp_all add: basicos_requeridos_def tecnicos_requeridos_def)
  have iff: "allGreen e lims \<longleftrightarrow>
      (\<forall>k \<in> set basicos_requeridos. isFilled (get (basicos e) k)) \<and>
      (\<forall>k \<in> set tecnicos_requeridos. isFilled (get (tecnicos e) k)) \<and>
      (tituloPropiedad (docs e) \<and> permisoExploracion (docs e) \<and> ensayoBombeo (docs e) \<and>
       estudioInterferencia (docs e) \<and> perfilesLitologicos (docs e) \<and>
       memoriaDescriptiva (docs e)) \<and>
      (\<exists>k b. map_of (r (anal e lims)) k = Some (Some b)) \<and>
      (propietario (firmas e) \<and> profesional (firmas e) \<and> declaracionJurada (firmas e))"
    for e
    using b t
    by (simp only: allGreen_def basicosStatus_def tecnicosStatus_def sectionStatus_green
          docs_green anal_not_red anal_def present_pos firmasOk_def) simp
  have step: "allGreen (e\<lparr>analisis := (analisis e)(k \<mapsto> v)\<rparr>) lims"
    if g: "allGreen e lims"
      and f: "map_of (r (checkAnalisis ((analisis e)(k \<mapsto> v)) lims)) k = Some (Some False)"
    for k v
  proof -
    from f have "\<exists>k' b. map_of (r (anal (e\<lparr>analisis := (analisis e)(k \<mapsto> v)\<rparr>) lims)) k' =
                   Some (Some b)"
      by (auto simp: anal_def)
    with g show ?thesis
      by (simp add: iff [of e] iff [of "e\<lparr>analisis := (analisis e)(k \<mapsto> v)\<rparr>"])
  qed
  from iff [of e] step show ?thesis by blast
qed


lemma exp_completo_basicos:
  "\<forall>k \<in> set basicos_requeridos. isFilled (get (basicos exp_completo) k)"
  by code_simp

lemma exp_completo_tecnicos:
  "\<forall>k \<in> set tecnicos_requeridos. isFilled (get (tecnicos exp_completo) k)"
  by code_simp

lemma exp_completo_pH:
  "map_of (r (anal exp_completo DEFAULT_LIMITS)) ''pH'' = Some (Some True)"
  by code_simp

lemma exp_completo_arsenico:
  "map_of (r (checkAnalisis ((analisis exp_completo)(''arsenico'' \<mapsto> Str ''0.02''))
      DEFAULT_LIMITS)) ''arsenico'' = Some (Some False)"
  by code_simp

theorem allGreen_iff_witness:
  "allGreen exp_completo DEFAULT_LIMITS \<and>
   map_of (r (checkAnalisis ((analisis exp_completo)(''arsenico'' \<mapsto> Str ''0.02''))
      DEFAULT_LIMITS)) ''arsenico'' = Some (Some False) \<and>
   allGreen (exp_completo\<lparr>analisis := (analisis exp_completo)(''arsenico'' \<mapsto> Str ''0.02'')\<rparr>)
     DEFAULT_LIMITS"
proof -
  have d: "tituloPropiedad (docs exp_completo) \<and> permisoExploracion (docs exp_completo) \<and>
           ensayoBombeo (docs exp_completo) \<and> estudioInterferencia (docs exp_completo) \<and>
           perfilesLitologicos (docs exp_completo) \<and> memoriaDescriptiva (docs exp_completo)"
    and f: "propietario (firmas exp_completo) \<and> profesional (firmas exp_completo) \<and>
            declaracionJurada (firmas exp_completo)"
    by (simp_all add: exp_completo_def)
  from exp_completo_pH
  have a: "\<exists>k b. map_of (r (anal exp_completo DEFAULT_LIMITS)) k = Some (Some b)"
    by blast
  from allGreen_iff [of exp_completo DEFAULT_LIMITS] exp_completo_basicos
    exp_completo_tecnicos d a f
  have g: "allGreen exp_completo DEFAULT_LIMITS" by blast
  from allGreen_iff [of exp_completo DEFAULT_LIMITS] g exp_completo_arsenico
  have "allGreen (exp_completo\<lparr>analisis :=
          (analisis exp_completo)(''arsenico'' \<mapsto> Str ''0.02'')\<rparr>) DEFAULT_LIMITS"
    by blast
  with g exp_completo_arsenico show ?thesis by blast
qed

subsection \<open>Import and export\<close>

lemma importJSON_alert_unchanged:
  "snd (importJSON p st) \<noteq> None \<Longrightarrow> fst (importJSON p st) = st"
  by (cases p; cases "projr p")
     (auto simp: importJSON_def Let_def split: sum.splits option.splits if_splits)

text \<open>
  C8. When the text of the file is not well-formed JSON, so that \<^verbatim>\<open>JSON.parse\<close>
  throws a \<^verbatim>\<open>SyntaxError\<close>, the import raises the alert and leaves the limits and
  the dossier as they were.
\<close>

theorem importJSON_malformed:
  "importJSON (Inl SyntaxError) st = (st, Some archivo_invalido) \<and>
   limits_state (fst (importJSON (Inl SyntaxError) st)) = limits_state st \<and>
   exp_state (fst (importJSON (Inl SyntaxError) st)) = exp_state st"
  by (simp add: importJSON_def)



subsection \<open>Bulk load from CSV\<close>

lemma assign_key_eq:
  "assign_key m next k =
     (if get m k \<noteq> Null \<and> get m k \<noteq> Undefined then next(target_field k \<mapsto> get m k)
      else next)"
  by (simp add: assign_key_def target_field_def)

lemma foldl_assign_frame:
  "\<forall>k \<in> set ks. target_field k \<noteq> f \<or> get m k = Null \<or> get m k = Undefined \<Longrightarrow>
   foldl (assign_key m) a ks f = a f"
  by (induction ks arbitrary: a) (auto simp: assign_key_eq)

lemma foldl_assign_effect:
  "k \<in> set ks \<Longrightarrow> get m k \<noteq> Null \<Longrightarrow> get m k \<noteq> Undefined \<Longrightarrow>
   \<forall>k' \<in> set ks. target_field k' = target_field k \<longrightarrow> k' = k \<Longrightarrow>
   foldl (assign_key m) a ks (target_field k) = Some (get m k)"
proof (induction ks rule: rev_induct)
  case Nil
  then show ?case by simp
next
  case (snoc x xs)
  show ?case
  proof (cases "x = k")
    case True
    with snoc.prems show ?thesis by (simp add: assign_key_eq)
  next
    case False
    with snoc.prems have "k \<in> set xs" and "target_field x \<noteq> target_field k" by auto
    with snoc show ?thesis by (simp add: assign_key_eq)
  qed
qed

lemma pH_not_key: "''pH'' \<notin> set bulk_keys"
  by (simp add: bulk_keys_def)

lemma target_field_inj:
  "k \<in> set bulk_keys \<Longrightarrow> k' \<in> set bulk_keys \<Longrightarrow> target_field k' = target_field k \<Longrightarrow> k' = k"
  using pH_not_key by (auto simp: target_field_def split: if_splits)

lemma put_entry_apply: "put_entry m (k, v) = m(k \<mapsto> v)"
  by (simp add: put_entry_def)

lemma fromEntries_other:
  "h \<notin> set hs \<Longrightarrow> foldl put_entry m0 (entries hs vs) h = m0 h"
  by (induction hs vs arbitrary: m0 rule: entries.induct) (auto simp: put_entry_apply)

lemma fromEntries_nth:
  "distinct hs \<Longrightarrow> length hs = length vs \<Longrightarrow> i < length hs \<Longrightarrow>
   foldl put_entry m0 (entries hs vs) (hs ! i) = Some (Str (vs ! i))"
proof (induction hs vs arbitrary: m0 i rule: entries.induct)
  case (1 vs)
  then show ?case by simp
next
  case (2 h hs)
  then show ?case by simp
next
  case (3 h hs v vs)
  show ?case
  proof (cases i)
    case 0
    from "3.prems" have "h \<notin> set hs" by simp
    from fromEntries_other [OF this, of "m0(h \<mapsto> Str v)" vs] 0 show ?thesis
      by (simp add: put_entry_apply)
  next
    case (Suc j)
    with "3.prems" "3.IH" [of j] show ?thesis by (simp add: put_entry_apply)
  qed
qed

text \<open>
  C9. Let the text have at least two lines, let \<open>hs\<close> be the trimmed, lowercased
  fields of the first line and \<open>vs\<close> the trimmed fields of the second, the fields
  being split at runs of commas, semicolons and tabs; let the headers be distinct and
  as many as the values. Then the handler raises no alert, every header that is one
  of the 21 keys has its value written to its field (\<^verbatim>\<open>pH\<close> for the header
  \<^verbatim>\<open>ph\<close>), every other field of the analysis keeps its value, and the sections
  \<^verbatim>\<open>meta\<close>, \<^verbatim>\<open>basicos\<close>, \<^verbatim>\<open>tecnicos\<close>, \<^verbatim>\<open>docs\<close> and \<^verbatim>\<open>firmas\<close> are unchanged.
\<close>

theorem applyBulk_frame:
  assumes lines: "split_lines (trim bulkText) = l0 # l1 # rest"
    and hs: "hs = map (\<lambda>h. toLowerCase (trim h)) (split_fields l0)"
    and vs: "vs = map trim (split_fields l1)"
    and dist: "distinct hs"
    and len: "length hs = length vs"
  shows "snd (applyBulk bulkText e) = None \<and>
    (\<forall>i < length hs. hs ! i \<in> set bulk_keys \<longrightarrow>
       analisis (fst (applyBulk bulkText e)) (target_field (hs ! i)) = Some (Str (vs ! i))) \<and>
    (\<forall>f. f \<notin> target_field ` (set hs \<inter> set bulk_keys) \<longrightarrow>
       analisis (fst (applyBulk bulkText e)) f = analisis e f) \<and>
    meta (fst (applyBulk bulkText e)) = meta e \<and>
    basicos (fst (applyBulk bulkText e)) = basicos e \<and>
    tecnicos (fst (applyBulk bulkText e)) = tecnicos e \<and>
    docs (fst (applyBulk bulkText e)) = docs e \<and>
    firmas (fst (applyBulk bulkText e)) = firmas e"
proof -
  let ?m = "fromEntries (entries hs vs)"
  let ?next = "foldl (assign_key ?m) (analisis e) bulk_keys"
  have res: "applyBulk bulkText e = (e\<lparr>analisis := ?next\<rparr>, None)"
    using lines hs vs by (simp add: applyBulk_def Let_def)
  have eff: "?next (target_field (hs ! i)) = Some (Str (vs ! i))"
    if i: "i < length hs" and key: "hs ! i \<in> set bulk_keys" for i
  proof -
    have g: "get ?m (hs ! i) = Str (vs ! i)"
      using fromEntries_nth [OF dist len i] by (simp add: fromEntries_def get_def)
    have "?next (target_field (hs ! i)) = Some (get ?m (hs ! i))"
    proof (rule foldl_assign_effect [OF key])
      show "get ?m (hs ! i) \<noteq> Null" "get ?m (hs ! i) \<noteq> Undefined" using g by simp_all
      show "\<forall>k' \<in> set bulk_keys. target_field k' = target_field (hs ! i) \<longrightarrow> k' = hs ! i"
        using target_field_inj [OF key] by blast
    qed
    with g show ?thesis by simp
  qed
  have frame: "?next f = analisis e f"
    if f: "f \<notin> target_field ` (set hs \<inter> set bulk_keys)" for f
  proof (rule foldl_assign_frame, rule ballI)
    fix k assume k: "k \<in> set bulk_keys"
    show "target_field k \<noteq> f \<or> get ?m k = Null \<or> get ?m k = Undefined"
    proof (cases "k \<in> set hs")
      case True
      with k f show ?thesis by auto
    next
      case False
      then have "?m k = None"
        using fromEntries_other [of k hs Map.empty vs] by (simp add: fromEntries_def)
      then show ?thesis by (simp add: get_def)
    qed
  qed
  from res eff frame show ?thesis by simp
qed


lemma sampleCSV_lines:
  "split_lines (trim sampleCSV) =
     (''ph,arsenico;nitritos'' @ [CHR 0x09] @ ''conductividad'') #
     (''7,0.01;0.05'' @ [CHR 0x09] @ ''1200'') # []"
  by code_simp

lemma sampleCSV_headers:
  "[''ph'', ''arsenico'', ''nitritos'', ''conductividad''] =
     map (\<lambda>h. toLowerCase (trim h))
       (split_fields (''ph,arsenico;nitritos'' @ [CHR 0x09] @ ''conductividad''))"
  by code_simp

lemma sampleCSV_values:
  "[''7'', ''0.01'', ''0.05'', ''1200''] =
     map trim (split_fields (''7,0.01;0.05'' @ [CHR 0x09] @ ''1200''))"
  by code_simp

theorem applyBulk_frame_witness:
  "snd (applyBulk sampleCSV exp_completo) = None \<and>
   analisis exp_completo ''pH'' = Some (Str ''7.2'') \<and>
   analisis (fst (applyBulk sampleCSV exp_completo)) ''pH'' = Some (Str ''7'') \<and>
   analisis (fst (applyBulk sampleCSV exp_completo)) ''arsenico'' = Some (Str ''0.01'') \<and>
   analisis (fst (applyBulk sampleCSV exp_completo)) ''nitritos'' = Some (Str ''0.05'') \<and>
   analisis (fst (applyBulk sampleCSV exp_completo)) ''conductividad'' = Some (Str ''1200'') \<and>
   analisis (fst (applyBulk sampleCSV exp_completo)) ''color'' = Some (Str ''5'') \<and>
   analisis (fst (applyBulk sampleCSV exp_completo)) ''ph'' = None \<and>
   basicos (fst (applyBulk sampleCSV exp_completo)) = basicos exp_completo \<and>
   tecnicos (fst (applyBulk sampleCSV exp_completo)) = tecnicos exp_completo \<and>
   docs (fst (applyBulk sampleCSV exp_completo)) = docs exp_completo \<and>
   firmas (fst (applyBulk sampleCSV exp_completo)) = firmas exp_completo \<and>
   meta (fst (applyBulk sampleCSV exp_completo)) = meta exp_completo"
proof -
  let ?hs = "[''ph'', ''arsenico'', ''nitritos'', ''conductividad'']"
  let ?vs = "[''7'', ''0.01'', ''0.05'', ''1200'']"
  have d: "distinct ?hs" and l: "length ?hs = length ?vs" by simp_all
  note th = applyBulk_frame [OF sampleCSV_lines sampleCSV_headers sampleCSV_values d l,
      of exp_completo]
  have keys: "?hs ! 0 \<in> set bulk_keys" "?hs ! 1 \<in> set bulk_keys"
    "?hs ! 2 \<in> set bulk_keys" "?hs ! 3 \<in> set bulk_keys"
    by (simp_all add: bulk_keys_def)
  from th keys(1) have 0: "analisis (fst (applyBulk sampleCSV exp_completo))
      (target_field (?hs ! 0)) = Some (Str (?vs ! 0))"
    by (elim conjE allE [of _ "0::nat"]) simp
  from th keys(2) have 1: "analisis (fst (applyBulk sampleCSV exp_completo))
      (target_field (?hs ! 1)) = Some (Str (?vs ! 1))"
    by (elim conjE allE [of _ "1::nat"]) simp
  from th keys(3) have 2: "analisis (fst (applyBulk sampleCSV exp_completo))
      (target_field (?hs ! 2)) = Some (Str (?vs ! 2))"
    by (elim conjE allE [of _ "2::nat"]) simp
  from th keys(4) have 3: "analisis (fst (applyBulk sampleCSV exp_completo))
      (target_field (?hs ! 3)) = Some (Str (?vs ! 3))"
    by (elim conjE allE [of _ "3::nat"]) simp
  have nc: "''color'' \<notin> target_field ` (set ?hs \<inter> set bulk_keys)"
    and np: "''ph'' \<notin> target_field ` (set ?hs \<inter> set bulk_keys)"
    by (auto simp: target_field_def)
  from th nc have c: "analisis (fst (applyBulk sampleCSV exp_completo)) ''color'' =
      analisis exp_completo ''color''" by blast
  from th np have p: "analisis (fst (applyBulk sampleCSV exp_completo)) ''ph'' =
      analisis exp_completo ''ph''" by blast
  have a: "analisis exp_completo ''pH'' = Some (Str ''7.2'')"
    "analisis exp_completo ''color'' = Some (Str ''5'')" "analisis exp_completo ''ph'' = None"
    by (simp_all add: exp_completo_def)
  from th 0 1 2 3 c p a show ?thesis by (simp add: target_field_def)
qed

end
